theory Spec2Isabelle
  imports Main
begin

section \<open>The OCI Data Science tool server (server.py)\<close>

text \<open>
  The server registers six tool handlers. Each handler opens client objects of two third-party
  libraries (the ADS catalogs and the OCI SDK), calls one or two of their methods and reshapes
  the answer with pandas. The libraries are not part of the repository: their methods are
  parameters of the model, each a function from its arguments to either the exception it
  raises (\<open>Inl\<close>) or the value it returns (\<open>Inr\<close>). No handler calls the same method twice, so
  a function of the arguments describes every single invocation.
\<close>

subsection \<open>Exceptions and the process state\<close>

text \<open>
  A Python exception: whether it is an instance of \<open>Exception\<close> (the only ones that
  \<open>except Exception\<close> catches), the name of its class, and the text \<open>str(e)\<close> that an f-string
  renders.
\<close>

datatype exn = PyExc (exc_catchable: bool) (exc_type: string) (exc_str: string)

text \<open>
  A record emitted through the \<open>logging\<close> module. \<open>logging.basicConfig\<close> is called without a
  stream, so the records go to standard error; the time stamp of the format is left out.
\<close>

datatype log_record = LogRecord (levelname: string) (message: string)

record NotebookSessionShapeConfigDetails =
  ocpus :: int
  memory_in_gbs :: int

record NotebookSessionConfigDetails =
  shape :: string
  block_storage_size_in_gbs :: int
  notebook_session_shape_config_details :: NotebookSessionShapeConfigDetails

record CreateNotebookSessionDetails =
  csd_project_id :: string
  csd_compartment_id :: string
  csd_display_name :: string
  csd_notebook_session_config_details :: NotebookSessionConfigDetails

text \<open>The library calls a handler makes, in the order it makes them, with their arguments.\<close>

datatype sdk_call =
    GetResourcePrincipalsSigner
  | NewIdentityClient
  | NewDataScienceClient
  | CreateNotebookSession CreateNotebookSessionDetails
  | NewProjectCatalog string
  | ListProjects
  | CatalogLen
  | CreateProject string string string
  | ToDataframe
  | NewModelCatalog string
  | ListModels

text \<open>
  What a handler can touch of the process: the authentication mode that \<open>ads.set_auth\<close> sets,
  the two output streams (one entry for each \<open>print\<close> call, one for each log record) and the
  calls made to the libraries.
\<close>

record proc =
  auth_mode :: "string option"
  stdout :: "string list"
  stderr :: "log_record list"
  calls :: "sdk_call list"

definition set_auth :: "string \<Rightarrow> proc \<Rightarrow> proc" where
  "set_auth mode s = s\<lparr>auth_mode := Some mode\<rparr>"

definition fresh_process :: proc where
  "fresh_process = \<lparr>auth_mode = None, stdout = [], stderr = [], calls = []\<rparr>"

text \<open>Module initialisation: line 22, \<open>ads.set_auth("resource_principal")\<close>.\<close>

definition startup :: proc where
  "startup = set_auth ''resource_principal'' fresh_process"

subsection \<open>Statements that may raise\<close>

type_synonym 'a action = "proc \<Rightarrow> (exn + 'a) \<times> proc"

definition ret :: "'a \<Rightarrow> 'a action" where
  "ret x = (\<lambda>s. (Inr x, s))"

definition raise :: "exn \<Rightarrow> 'a action" where
  "raise e = (\<lambda>s. (Inl e, s))"

definition bind :: "'a action \<Rightarrow> ('a \<Rightarrow> 'b action) \<Rightarrow> 'b action" where
  "bind m f = (\<lambda>s. case m s of (Inl e, s') \<Rightarrow> (Inl e, s') | (Inr x, s') \<Rightarrow> f x s')"

text \<open>
  \<open>try: body except Exception as e: handler\<close>. An exception that is not an instance of
  \<open>Exception\<close> passes through.
\<close>

definition try_except :: "'a action \<Rightarrow> (exn \<Rightarrow> 'a action) \<Rightarrow> 'a action" where
  "try_except body handler =
     (\<lambda>s. case body s of
             (Inl e, s') \<Rightarrow> if exc_catchable e then handler e s' else (Inl e, s')
           | (Inr x, s') \<Rightarrow> (Inr x, s'))"

definition print :: "string \<Rightarrow> unit action" where
  "print line = (\<lambda>s. (Inr (), s\<lparr>stdout := stdout s @ [line]\<rparr>))"

definition logger_info :: "string \<Rightarrow> unit action" where
  "logger_info msg = (\<lambda>s. (Inr (), s\<lparr>stderr := stderr s @ [LogRecord ''INFO'' msg]\<rparr>))"

text \<open>A call into a library: it is recorded, and its outcome is the library's.\<close>

definition sdk :: "sdk_call \<Rightarrow> exn + 'a \<Rightarrow> 'a action" where
  "sdk c outcome = (\<lambda>s. (outcome, s\<lparr>calls := calls s @ [c]\<rparr>))"

text \<open>A local computation (pandas): it may raise, and touches nothing of the process.\<close>

definition local :: "exn + 'a \<Rightarrow> 'a action" where
  "local outcome = (\<lambda>s. (outcome, s))"

text \<open>The except clause of the five guarded handlers: print one line, re-raise.\<close>

definition log_and_reraise :: "string \<Rightarrow> exn \<Rightarrow> 'a action" where
  "log_and_reraise prefix e = bind (print (prefix @ exc_str e)) (\<lambda>_. raise e)"

subsection \<open>The libraries\<close>

record signer =
  signer_compartment_id :: string

record Project =
  proj_id :: string
  proj_display_name :: string
  proj_description :: string

text \<open>
  A pandas frame: the row labels and the columns in order, each column with its cells.
\<close>

record ('i, 'v) DataFrame =
  df_index :: "'i list"
  df_columns :: "(string \<times> 'v list) list"

datatype pyval = PyNone | PyStr string | PyInt int

text \<open>
  \<open>ads.catalog.project.ProjectCatalog\<close>: the constructor, \<open>list_projects\<close> (which may update the
  catalog object it is called on, so it returns the object as well), \<open>len\<close> of the catalog
  object, \<open>create_project\<close> with its three keyword arguments, and \<open>to_dataframe\<close> of the
  project it returns. The listing is a sequence, modelled by the list of its elements.
\<close>

record ('cat, 'proj) ads_project =
  ProjectCatalog :: "string \<Rightarrow> exn + 'cat"
  pc_list_projects :: "'cat \<Rightarrow> exn + (Project list \<times> 'cat)"
  pc_len :: "'cat \<Rightarrow> exn + nat"
  pc_create_project :: "'cat \<Rightarrow> string \<Rightarrow> string \<Rightarrow> string \<Rightarrow> exn + 'proj"
  proj_to_dataframe :: "'proj \<Rightarrow> exn + (string, pyval) DataFrame"

record ('mcat, 'model) ads_model =
  ModelCatalog :: "string \<Rightarrow> exn + 'mcat"
  mc_list_models :: "'mcat \<Rightarrow> exn + 'model list"

datatype datetime = Datetime nat

record 'cfg NotebookSession =
  notebook_session_url :: string
  ns_display_name :: string
  time_created :: datetime
  notebook_session_config_details :: 'cfg

record 'a Response =
  data :: 'a

record ('dsc, 'cfg) oci_sdk =
  get_resource_principals_signer :: "unit \<Rightarrow> exn + signer"
  IdentityClient :: "signer \<Rightarrow> exn + unit"
  DataScienceClient :: "signer \<Rightarrow> exn + 'dsc"
  dsc_create_notebook_session ::
    "'dsc \<Rightarrow> CreateNotebookSessionDetails \<Rightarrow> exn + 'cfg NotebookSession Response"

subsection \<open>pandas\<close>

text \<open>A Python dict built from key/value pairs: a later pair replaces an earlier one.\<close>

definition dict_of :: "('k \<times> 'v) list \<Rightarrow> ('k \<rightharpoonup> 'v)" where
  "dict_of kvs = fold (\<lambda>(k, v) m. m(k \<mapsto> v)) kvs Map.empty"

text \<open>
  \<open>pd.DataFrame(d)\<close> for a dict of lists: the columns must have one length, which becomes a
  range index; otherwise pandas raises \<open>ValueError\<close>.
\<close>

definition pd_DataFrame :: "(string \<times> 'v list) list \<Rightarrow> exn + (nat, 'v) DataFrame" where
  "pd_DataFrame cols =
     (case cols of
        [] \<Rightarrow> Inr \<lparr>df_index = [], df_columns = []\<rparr>
      | (_, vs) # rest \<Rightarrow>
          if list_all (\<lambda>(_, ws). length ws = length vs) rest
          then Inr \<lparr>df_index = [0..<length vs], df_columns = cols\<rparr>
          else Inl (PyExc True ''ValueError'' ''All arrays must be of the same length''))"

text \<open>\<open>df.to_dict('records')\<close>: one dict for each row, from column name to cell.\<close>

definition to_dict_records :: "('i, 'v) DataFrame \<Rightarrow> (string \<rightharpoonup> 'v) list" where
  "to_dict_records df =
     map (\<lambda>r. dict_of (map (\<lambda>(c, vs). (c, vs ! r)) (df_columns df)))
       [0..<length (df_index df)]"

text \<open>\<open>df.to_dict()\<close>: from column name to the dict from row label to cell.\<close>

definition to_dict :: "('i, 'v) DataFrame \<Rightarrow> (string \<rightharpoonup> ('i \<rightharpoonup> 'v))" where
  "to_dict df = dict_of (map (\<lambda>(c, vs). (c, dict_of (zip (df_index df) vs))) (df_columns df))"

subsection \<open>The tool handlers\<close>

text \<open>\<open>get_compartment_id\<close> (lines 31 to 45): no try block.\<close>

definition get_compartment_id :: "('dsc, 'cfg) oci_sdk \<Rightarrow> string action" where
  "get_compartment_id oci =
     bind (sdk GetResourcePrincipalsSigner (get_resource_principals_signer oci ())) (\<lambda>signer.
     bind (sdk NewIdentityClient (IdentityClient oci signer)) (\<lambda>identity_client.
     ret (signer_compartment_id signer)))"

text \<open>
  \<open>project_count\<close> (lines 48 to 68). The body of the try block computes \<open>projects\<close> and then
  returns \<open>len(project_catalog)\<close>, the length of the catalog object after the listing.
\<close>

definition project_count_try :: "('cat, 'proj) ads_project \<Rightarrow> string \<Rightarrow> nat action" where
  "project_count_try ads compartment_id =
     bind (sdk (NewProjectCatalog compartment_id) (ProjectCatalog ads compartment_id))
       (\<lambda>project_catalog.
     bind (sdk ListProjects (pc_list_projects ads project_catalog))
       (\<lambda>(projects, project_catalog).
     bind (sdk CatalogLen (pc_len ads project_catalog)) (\<lambda>num_projects.
     ret num_projects)))"

definition project_count :: "('cat, 'proj) ads_project \<Rightarrow> string \<Rightarrow> nat action" where
  "project_count ads compartment_id =
     bind (logger_info ''calling project_count tool successfully'') (\<lambda>_.
     try_except (project_count_try ads compartment_id)
       (log_and_reraise ''Error getting project count: ''))"

text \<open>\<open>create_project\<close> (lines 71 to 90); its except clause prints the same prefix.\<close>

definition create_project_try ::
  "('cat, 'proj) ads_project \<Rightarrow> string \<Rightarrow> string \<Rightarrow> string \<Rightarrow>
   (string \<rightharpoonup> (string \<rightharpoonup> pyval)) action" where
  "create_project_try ads project_name project_description compartment_id =
     bind (sdk (NewProjectCatalog compartment_id) (ProjectCatalog ads compartment_id))
       (\<lambda>project_catalog.
     bind (sdk (CreateProject project_name project_description compartment_id)
             (pc_create_project ads project_catalog project_name project_description
                compartment_id))
       (\<lambda>res.
     bind (sdk ToDataframe (proj_to_dataframe ads res)) (\<lambda>df.
     ret (to_dict df))))"

definition create_project ::
  "('cat, 'proj) ads_project \<Rightarrow> string \<Rightarrow> string \<Rightarrow> string \<Rightarrow>
   (string \<rightharpoonup> (string \<rightharpoonup> pyval)) action" where
  "create_project ads project_name project_description compartment_id =
     try_except (create_project_try ads project_name project_description compartment_id)
       (log_and_reraise ''Error getting project count: '')"

text \<open>\<open>model_count\<close> (lines 92 to 110): the length of the listing.\<close>

definition model_count_try :: "('mcat, 'model) ads_model \<Rightarrow> string \<Rightarrow> nat action" where
  "model_count_try ads compartment_id =
     bind (sdk (NewModelCatalog compartment_id) (ModelCatalog ads compartment_id))
       (\<lambda>model_catalog.
     bind (sdk ListModels (mc_list_models ads model_catalog)) (\<lambda>models.
     ret (length models)))"

definition model_count :: "('mcat, 'model) ads_model \<Rightarrow> string \<Rightarrow> nat action" where
  "model_count ads compartment_id =
     try_except (model_count_try ads compartment_id)
       (log_and_reraise ''Error getting model count: '')"

text \<open>
  \<open>list_projects\<close> (lines 112 to 138). The loop \<open>for i in range(len(projects))\<close> appends to
  three lists; \<open>projects[i]\<close> is always in range there.
\<close>

function list_projects_loop ::
  "Project list \<Rightarrow> nat \<Rightarrow> string list \<times> string list \<times> string list \<Rightarrow>
   string list \<times> string list \<times> string list" where
  "list_projects_loop projects i (project_id, project_name, project_desc) =
     (if i < length projects
      then list_projects_loop projects (Suc i)
             (project_id @ [proj_id (projects ! i)],
              project_name @ [proj_display_name (projects ! i)],
              project_desc @ [proj_description (projects ! i)])
      else (project_id, project_name, project_desc))"
  by pat_completeness auto
termination
  by (relation "measure (\<lambda>(projects, i, acc). length projects - i)") auto

declare list_projects_loop.simps [simp del]

definition list_projects_try ::
  "('cat, 'proj) ads_project \<Rightarrow> string \<Rightarrow> (string \<rightharpoonup> string) list action" where
  "list_projects_try ads compartment_id =
     bind (sdk (NewProjectCatalog compartment_id) (ProjectCatalog ads compartment_id))
       (\<lambda>project_catalog.
     bind (sdk ListProjects (pc_list_projects ads project_catalog))
       (\<lambda>(projects, project_catalog).
     case list_projects_loop projects 0 ([], [], []) of
       (project_id, project_name, project_desc) \<Rightarrow>
     bind (local (pd_DataFrame [(''project_id'', project_id), (''project_name'', project_name),
                                (''project_description'', project_desc)]))
       (\<lambda>frame.
     ret (to_dict_records frame))))"

definition list_projects ::
  "('cat, 'proj) ads_project \<Rightarrow> string \<Rightarrow> (string \<rightharpoonup> string) list action" where
  "list_projects ads compartment_id =
     try_except (list_projects_try ads compartment_id)
       (log_and_reraise ''Error getting project list: '')"

text \<open>\<open>create_notebook_session\<close> (lines 140 to 176).\<close>

datatype 'cfg notebook_value = VStr string | VTime datetime | VConfig 'cfg

definition create_notebook_session_try ::
  "('dsc, 'cfg) oci_sdk \<Rightarrow> string \<Rightarrow> string \<Rightarrow> string \<Rightarrow>
   (string \<rightharpoonup> 'cfg notebook_value) action" where
  "create_notebook_session_try oci project_id compartment_id display_name =
     bind (sdk GetResourcePrincipalsSigner (get_resource_principals_signer oci ())) (\<lambda>signer.
     bind (sdk NewDataScienceClient (DataScienceClient oci signer)) (\<lambda>ds_client.
     let create_notebook_session_details =
           \<lparr>csd_project_id = project_id,
            csd_compartment_id = compartment_id,
            csd_display_name = display_name,
            csd_notebook_session_config_details =
              \<lparr>shape = ''VM.Standard.E4.Flex'',
               block_storage_size_in_gbs = 50,
               notebook_session_shape_config_details = \<lparr>ocpus = 4, memory_in_gbs = 16\<rparr>\<rparr>\<rparr>
     in
     bind (sdk (CreateNotebookSession create_notebook_session_details)
             (dsc_create_notebook_session oci ds_client create_notebook_session_details))
       (\<lambda>create_notebook_session_response.
     let notebook_dict = Map.empty;
         notebook_dict = notebook_dict(''notebook_session_url'' \<mapsto>
           VStr (notebook_session_url (data create_notebook_session_response)));
         notebook_dict = notebook_dict(''display_name'' \<mapsto>
           VStr (ns_display_name (data create_notebook_session_response)));
         notebook_dict = notebook_dict(''time_created'' \<mapsto>
           VTime (time_created (data create_notebook_session_response)));
         notebook_dict = notebook_dict(''session_details'' \<mapsto>
           VConfig (notebook_session_config_details (data create_notebook_session_response)))
     in ret notebook_dict)))"

definition create_notebook_session ::
  "('dsc, 'cfg) oci_sdk \<Rightarrow> string \<Rightarrow> string \<Rightarrow> string \<Rightarrow>
   (string \<rightharpoonup> 'cfg notebook_value) action" where
  "create_notebook_session oci project_id compartment_id display_name =
     try_except (create_notebook_session_try oci project_id compartment_id display_name)
       (log_and_reraise ''Error creating notebook session: '')"

subsection \<open>Simulated backends\<close>

text \<open>
  Concrete libraries to run the handlers on. The simulated project catalog keeps, as its own
  contents, an index keyed by a shortened identifier (the last six characters) which the
  listing fills; its length is the size of that index.
\<close>

definition short_id :: "string \<Rightarrow> string" where
  "short_id ocid = ''...'' @ drop (length ocid - 6) ocid"

definition sim_ads_project ::
  "(string \<Rightarrow> Project list) \<Rightarrow> (string \<times> string list, (string \<times> pyval) list) ads_project"
  where
  "sim_ads_project store =
     \<lparr>ProjectCatalog = (\<lambda>c. Inr (c, [])),
      pc_list_projects =
        (\<lambda>(c, idx). Inr (store c, (c, remdups (idx @ map (\<lambda>p. short_id (proj_id p)) (store c))))),
      pc_len = (\<lambda>(c, idx). Inr (length idx)),
      pc_create_project =
        (\<lambda>cat name desc comp.
           Inr [(''compartment_id'', PyStr comp), (''description'', PyStr desc),
                (''display_name'', PyStr name), (''id'', PyStr ''ocid1.project.new001'')]),
      proj_to_dataframe =
        (\<lambda>attrs. Inr \<lparr>df_index = map fst attrs, df_columns = [([], map snd attrs)]\<rparr>)\<rparr>"

definition two_projects :: "string \<Rightarrow> Project list" where
  "two_projects c =
     [\<lparr>proj_id = ''ocid1.project.aaa111'', proj_display_name = ''Churn'',
       proj_description = ''Customer churn''\<rparr>,
      \<lparr>proj_id = ''ocid1.project.bbb222'', proj_display_name = ''Fraud'',
       proj_description = ''Card fraud''\<rparr>]"

text \<open>Two projects whose identifiers end in the same six characters.\<close>

definition colliding_projects :: "string \<Rightarrow> Project list" where
  "colliding_projects c =
     [\<lparr>proj_id = ''ocid1.project.a.000001'', proj_display_name = ''Churn'',
       proj_description = ''Customer churn''\<rparr>,
      \<lparr>proj_id = ''ocid1.project.b.000001'', proj_display_name = ''Fraud'',
       proj_description = ''Card fraud''\<rparr>]"

definition sim_ads_model :: "(string \<Rightarrow> string list) \<Rightarrow> (string, string) ads_model" where
  "sim_ads_model store =
     \<lparr>ModelCatalog = (\<lambda>c. Inr c), mc_list_models = (\<lambda>c. Inr (store c))\<rparr>"

definition sim_signer :: signer where
  "sim_signer = \<lparr>signer_compartment_id = ''ocid1.compartment.c1''\<rparr>"

definition sim_oci :: "(unit, NotebookSessionConfigDetails) oci_sdk" where
  "sim_oci =
     \<lparr>get_resource_principals_signer = (\<lambda>_. Inr sim_signer),
      IdentityClient = (\<lambda>_. Inr ()),
      DataScienceClient = (\<lambda>_. Inr ()),
      dsc_create_notebook_session =
        (\<lambda>_ d. Inr \<lparr>data =
           \<lparr>notebook_session_url = ''https://notebook.example/s1'',
            ns_display_name = csd_display_name d,
            time_created = Datetime 1700000000,
            notebook_session_config_details = csd_notebook_session_config_details d\<rparr>\<rparr>)\<rparr>"

text \<open>Backends on which every call raises the same service error.\<close>

definition service_error :: exn where
  "service_error = PyExc True ''ServiceError'' ''boom''"

definition failing_ads_project :: "(unit, unit) ads_project" where
  "failing_ads_project =
     \<lparr>ProjectCatalog = (\<lambda>_. Inl service_error),
      pc_list_projects = (\<lambda>_. Inl service_error),
      pc_len = (\<lambda>_. Inl service_error),
      pc_create_project = (\<lambda>_ _ _ _. Inl service_error),
      proj_to_dataframe = (\<lambda>_. Inl service_error)\<rparr>"

definition failing_ads_model :: "(unit, unit) ads_model" where
  "failing_ads_model =
     \<lparr>ModelCatalog = (\<lambda>_. Inl service_error), mc_list_models = (\<lambda>_. Inl service_error)\<rparr>"

definition failing_oci :: "(unit, unit) oci_sdk" where
  "failing_oci =
     \<lparr>get_resource_principals_signer = (\<lambda>_. Inl service_error),
      IdentityClient = (\<lambda>_. Inl service_error),
      DataScienceClient = (\<lambda>_. Inl service_error),
      dsc_create_notebook_session = (\<lambda>_ _. Inl service_error)\<rparr>"

subsection \<open>Running the statements\<close>

lemma bind_sdk:
  "bind (sdk c outcome) f s =
     (case outcome of Inl e \<Rightarrow> (Inl e, s\<lparr>calls := calls s @ [c]\<rparr>)
                    | Inr x \<Rightarrow> f x (s\<lparr>calls := calls s @ [c]\<rparr>))"
  by (simp add: bind_def sdk_def split: sum.splits)

lemma bind_logger_info:
  "bind (logger_info msg) f s = f () (s\<lparr>stderr := stderr s @ [LogRecord ''INFO'' msg]\<rparr>)"
  by (simp add: bind_def logger_info_def)

lemma ret_apply: "ret x s = (Inr x, s)"
  by (simp add: ret_def)

lemma log_and_reraise_apply:
  "log_and_reraise prefix e s = (Inl e, s\<lparr>stdout := stdout s @ [prefix @ exc_str e]\<rparr>)"
  by (simp add: log_and_reraise_def bind_def print_def raise_def)

lemma try_except_apply:
  "try_except body (log_and_reraise prefix) s =
     (case body s of
        (Inl e, s') \<Rightarrow>
          (Inl e, if exc_catchable e then s'\<lparr>stdout := stdout s' @ [prefix @ exc_str e]\<rparr> else s')
      | (Inr x, s') \<Rightarrow> (Inr x, s'))"
  by (simp add: try_except_def log_and_reraise_apply split: sum.splits prod.splits)

text \<open>Each try block, as the case analysis over the outcomes of its library calls.\<close>

lemma get_compartment_id_eq:
  "get_compartment_id oci s =
     (case get_resource_principals_signer oci () of
        Inl e \<Rightarrow> (Inl e, s\<lparr>calls := calls s @ [GetResourcePrincipalsSigner]\<rparr>)
      | Inr signer \<Rightarrow>
          (case IdentityClient oci signer of
             Inl e \<Rightarrow>
               (Inl e, s\<lparr>calls := calls s @ [GetResourcePrincipalsSigner, NewIdentityClient]\<rparr>)
           | Inr _ \<Rightarrow>
               (Inr (signer_compartment_id signer),
                s\<lparr>calls := calls s @ [GetResourcePrincipalsSigner, NewIdentityClient]\<rparr>)))"
  by (simp add: get_compartment_id_def bind_sdk ret_apply split: sum.splits)

lemma project_count_try_eq:
  "project_count_try ads c s =
     (case ProjectCatalog ads c of
        Inl e \<Rightarrow> (Inl e, s\<lparr>calls := calls s @ [NewProjectCatalog c]\<rparr>)
      | Inr cat \<Rightarrow>
          (case pc_list_projects ads cat of
             Inl e \<Rightarrow> (Inl e, s\<lparr>calls := calls s @ [NewProjectCatalog c, ListProjects]\<rparr>)
           | Inr (projects, cat') \<Rightarrow>
               (case pc_len ads cat' of
                  Inl e \<Rightarrow>
                    (Inl e,
                     s\<lparr>calls := calls s @ [NewProjectCatalog c, ListProjects, CatalogLen]\<rparr>)
                | Inr n \<Rightarrow>
                    (Inr n,
                     s\<lparr>calls := calls s @ [NewProjectCatalog c, ListProjects, CatalogLen]\<rparr>))))"
  by (simp add: project_count_try_def bind_sdk ret_apply split: sum.splits prod.splits)

lemma create_project_try_eq:
  "create_project_try ads n d c s =
     (case ProjectCatalog ads c of
        Inl e \<Rightarrow> (Inl e, s\<lparr>calls := calls s @ [NewProjectCatalog c]\<rparr>)
      | Inr cat \<Rightarrow>
          (case pc_create_project ads cat n d c of
             Inl e \<Rightarrow> (Inl e, s\<lparr>calls := calls s @ [NewProjectCatalog c, CreateProject n d c]\<rparr>)
           | Inr res \<Rightarrow>
               (case proj_to_dataframe ads res of
                  Inl e \<Rightarrow>
                    (Inl e,
                     s\<lparr>calls := calls s @ [NewProjectCatalog c, CreateProject n d c, ToDataframe]\<rparr>)
                | Inr df \<Rightarrow>
                    (Inr (to_dict df),
                     s\<lparr>calls :=
                         calls s @ [NewProjectCatalog c, CreateProject n d c, ToDataframe]\<rparr>))))"
  by (simp add: create_project_try_def bind_sdk ret_apply split: sum.splits)

lemma model_count_try_eq:
  "model_count_try ads c s =
     (case ModelCatalog ads c of
        Inl e \<Rightarrow> (Inl e, s\<lparr>calls := calls s @ [NewModelCatalog c]\<rparr>)
      | Inr cat \<Rightarrow>
          (case mc_list_models ads cat of
             Inl e \<Rightarrow> (Inl e, s\<lparr>calls := calls s @ [NewModelCatalog c, ListModels]\<rparr>)
           | Inr models \<Rightarrow>
               (Inr (length models), s\<lparr>calls := calls s @ [NewModelCatalog c, ListModels]\<rparr>)))"
  by (simp add: model_count_try_def bind_sdk ret_apply split: sum.splits)

lemma create_notebook_session_try_eq:
  "create_notebook_session_try oci p c n s =
     (case get_resource_principals_signer oci () of
        Inl e \<Rightarrow> (Inl e, s\<lparr>calls := calls s @ [GetResourcePrincipalsSigner]\<rparr>)
      | Inr signer \<Rightarrow>
          (case DataScienceClient oci signer of
             Inl e \<Rightarrow>
               (Inl e, s\<lparr>calls := calls s @ [GetResourcePrincipalsSigner, NewDataScienceClient]\<rparr>)
           | Inr ds_client \<Rightarrow>
               (let details =
                      \<lparr>csd_project_id = p, csd_compartment_id = c, csd_display_name = n,
                       csd_notebook_session_config_details =
                         \<lparr>shape = ''VM.Standard.E4.Flex'', block_storage_size_in_gbs = 50,
                          notebook_session_shape_config_details =
                            \<lparr>ocpus = 4, memory_in_gbs = 16\<rparr>\<rparr>\<rparr>;
                    s' = s\<lparr>calls := calls s @ [GetResourcePrincipalsSigner, NewDataScienceClient,
                                               CreateNotebookSession details]\<rparr>
                in case dsc_create_notebook_session oci ds_client details of
                     Inl e \<Rightarrow> (Inl e, s')
                   | Inr r \<Rightarrow>
                       (Inr [''notebook_session_url'' \<mapsto> VStr (notebook_session_url (data r)),
                             ''display_name'' \<mapsto> VStr (ns_display_name (data r)),
                             ''time_created'' \<mapsto> VTime (time_created (data r)),
                             ''session_details'' \<mapsto>
                               VConfig (notebook_session_config_details (data r))],
                        s'))))"
  by (simp add: create_notebook_session_try_def bind_sdk ret_apply Let_def split: sum.splits)

subsection \<open>The loop and the frame of \<open>list_projects\<close>\<close>


lemma list_projects_loop_eq:
  "list_projects_loop projects i (a, b, c) =
     (a @ map proj_id (drop i projects),
      b @ map proj_display_name (drop i projects),
      c @ map proj_description (drop i projects))"
proof (induction projects i "(a, b, c)" arbitrary: a b c rule: list_projects_loop.induct)
  case (1 projects i a b c)
  show ?case
  proof (cases "i < length projects")
    case True
    then have d: "drop i projects = projects ! i # drop (Suc i) projects"
      by (simp add: Cons_nth_drop_Suc)
    have "list_projects_loop projects i (a, b, c) =
          list_projects_loop projects (Suc i)
            (a @ [proj_id (projects ! i)], b @ [proj_display_name (projects ! i)],
             c @ [proj_description (projects ! i)])"
      using True by (subst list_projects_loop.simps) simp
    also have "\<dots> =
          ((a @ [proj_id (projects ! i)]) @ map proj_id (drop (Suc i) projects),
           (b @ [proj_display_name (projects ! i)]) @ map proj_display_name (drop (Suc i) projects),
           (c @ [proj_description (projects ! i)]) @ map proj_description (drop (Suc i) projects))"
      using True by (rule "1.hyps")
    finally show ?thesis
      by (simp add: d)
  next
    case False
    then show ?thesis
      by (subst list_projects_loop.simps) simp
  qed
qed

lemma dict_of_three:
  "dict_of [(k1, v1), (k2, v2), (k3, v3)] = [k1 \<mapsto> v1, k2 \<mapsto> v2, k3 \<mapsto> v3]"
  by (simp add: dict_of_def)

lemma pd_DataFrame_three:
  assumes "length b = length a" and "length c = length a"
  shows "pd_DataFrame [(k1, a), (k2, b), (k3, c)] =
           Inr \<lparr>df_index = [0..<length a], df_columns = [(k1, a), (k2, b), (k3, c)]\<rparr>"
  using assms by (simp add: pd_DataFrame_def)

lemma to_dict_records_projects:
  "to_dict_records
     \<lparr>df_index = [0..<length projects],
      df_columns = [(k1, map f projects), (k2, map g projects), (k3, map h projects)]\<rparr> =
   map (\<lambda>p. [k1 \<mapsto> f p, k2 \<mapsto> g p, k3 \<mapsto> h p]) projects"
  by (rule nth_equalityI) (simp_all add: to_dict_records_def dict_of_three)


lemma bind_local:
  "bind (local outcome) f s = (case outcome of Inl e \<Rightarrow> (Inl e, s) | Inr x \<Rightarrow> f x s)"
  by (simp add: bind_def local_def split: sum.splits)

lemma list_projects_tail:
  "(case list_projects_loop projects 0 ([], [], []) of
      (project_id, project_name, project_desc) \<Rightarrow>
        bind (local (pd_DataFrame [(''project_id'', project_id), (''project_name'', project_name),
                                   (''project_description'', project_desc)]))
          (\<lambda>frame. ret (to_dict_records frame))) s =
   (Inr (map (\<lambda>p. [''project_id'' \<mapsto> proj_id p,
                   ''project_name'' \<mapsto> proj_display_name p,
                   ''project_description'' \<mapsto> proj_description p]) projects), s)"
  by (simp add: list_projects_loop_eq bind_local pd_DataFrame_three ret_apply
      to_dict_records_projects)

lemma list_projects_try_eq:
  "list_projects_try ads c s =
     (case ProjectCatalog ads c of
        Inl e \<Rightarrow> (Inl e, s\<lparr>calls := calls s @ [NewProjectCatalog c]\<rparr>)
      | Inr cat \<Rightarrow>
          (case pc_list_projects ads cat of
             Inl e \<Rightarrow> (Inl e, s\<lparr>calls := calls s @ [NewProjectCatalog c, ListProjects]\<rparr>)
           | Inr (projects, cat') \<Rightarrow>
               (Inr (map (\<lambda>p. [''project_id'' \<mapsto> proj_id p,
                               ''project_name'' \<mapsto> proj_display_name p,
                               ''project_description'' \<mapsto> proj_description p]) projects),
                s\<lparr>calls := calls s @ [NewProjectCatalog c, ListProjects]\<rparr>)))"
  by (simp add: list_projects_try_def bind_sdk list_projects_tail split: sum.splits prod.splits)

subsection \<open>Dicts built from pairs\<close>

lemma fold_upd_eq:
  "fold (\<lambda>(k, v) m. m(k \<mapsto> v)) kvs m0 = m0 ++ map_of (rev kvs)"
proof (induction kvs arbitrary: m0)
  case Nil
  show ?case by simp
next
  case (Cons kv kvs)
  obtain k v where kv: "kv = (k, v)" by (cases kv)
  have "fold (\<lambda>(k, v) m. m(k \<mapsto> v)) (kv # kvs) m0 =
        fold (\<lambda>(k, v) m. m(k \<mapsto> v)) kvs (m0(k \<mapsto> v))"
    by (simp only: kv fold_simps case_prod_conv)
  also have "\<dots> = m0(k \<mapsto> v) ++ map_of (rev kvs)"
    by (rule Cons.IH)
  also have "\<dots> = m0 ++ map_of (rev (kv # kvs))"
    by (rule ext) (simp add: kv map_add_def split: option.splits)
  finally show ?case .
qed

lemma dict_of_eq_map_of: "dict_of kvs = map_of (rev kvs)"
  by (simp only: dict_of_def fold_upd_eq empty_map_add)

lemma dict_of_distinct:
  assumes "distinct (map fst kvs)" and "(k, v) \<in> set kvs"
  shows "dict_of kvs k = Some v"
proof -
  have "distinct (map fst (rev kvs))"
    using assms(1) by (simp add: rev_map [symmetric])
  moreover have "(k, v) \<in> set (rev kvs)"
    using assms(2) by simp
  ultimately have "map_of (rev kvs) k = Some v"
    by (rule map_of_is_SomeI)
  then show ?thesis
    by (simp only: dict_of_eq_map_of)
qed

lemma to_dict_cell:
  assumes cols: "distinct (map fst (df_columns df))"
    and idx: "distinct (df_index df)"
    and col: "(c, vs) \<in> set (df_columns df)"
    and i: "i < length (df_index df)" "i < length vs"
  shows "\<exists>m. to_dict df c = Some m \<and> m (df_index df ! i) = Some (vs ! i)"
proof -
  let ?g = "\<lambda>(c, vs). (c, dict_of (zip (df_index df) vs))"
  have fsts: "map fst (map ?g (df_columns df)) = map fst (df_columns df)"
    by (simp add: case_prod_beta comp_def)
  have "?g (c, vs) \<in> set (map ?g (df_columns df))"
    using col by (simp only: set_map) (rule imageI)
  then have mem: "(c, dict_of (zip (df_index df) vs)) \<in> set (map ?g (df_columns df))"
    by (simp only: case_prod_conv)
  have "distinct (map fst (map ?g (df_columns df)))"
    using cols by (simp only: fsts)
  then have "dict_of (map ?g (df_columns df)) c = Some (dict_of (zip (df_index df) vs))"
    using mem by (rule dict_of_distinct)
  then have outer: "to_dict df c = Some (dict_of (zip (df_index df) vs))"
    by (simp only: to_dict_def)
  have "distinct (map fst (zip (df_index df) vs))"
    using idx by (simp add: map_fst_zip_take)
  moreover have "(df_index df ! i, vs ! i) \<in> set (zip (df_index df) vs)"
    using i by (auto simp: set_zip)
  ultimately have "dict_of (zip (df_index df) vs) (df_index df ! i) = Some (vs ! i)"
    by (rule dict_of_distinct)
  with outer show ?thesis by simp
qed

section \<open>Properties of the handlers\<close>

text \<open>
  Claim C8. \<open>get_compartment_id\<close> takes no argument besides the library and returns the
  \<open>compartment_id\<close> field of the resource-principal signer; an exception raised while the
  signer is obtained or while the identity client is built reaches the caller as it is, and
  nothing is written to either output stream.
\<close>

theorem get_compartment_id_signer_field:
  "(\<forall>signer ic. get_resource_principals_signer oci () = Inr signer \<longrightarrow>
      IdentityClient oci signer = Inr ic \<longrightarrow>
      fst (get_compartment_id oci s) = Inr (signer_compartment_id signer)) \<and>
   (\<forall>e. get_resource_principals_signer oci () = Inl e \<longrightarrow>
      fst (get_compartment_id oci s) = Inl e) \<and>
   (\<forall>signer e. get_resource_principals_signer oci () = Inr signer \<longrightarrow>
      IdentityClient oci signer = Inl e \<longrightarrow>
      fst (get_compartment_id oci s) = Inl e) \<and>
   stdout (snd (get_compartment_id oci s)) = stdout s \<and>
   stderr (snd (get_compartment_id oci s)) = stderr s"
  by (simp add: get_compartment_id_eq split: sum.splits)

theorem get_compartment_id_signer_field_witness:
  "get_resource_principals_signer sim_oci () = Inr sim_signer \<and>
   IdentityClient sim_oci sim_signer = Inr () \<and>
   fst (get_compartment_id sim_oci startup) = Inr ''ocid1.compartment.c1'' \<and>
   get_resource_principals_signer failing_oci () = Inl service_error \<and>
   fst (get_compartment_id failing_oci startup) = Inl service_error"
  using get_compartment_id_signer_field [of sim_oci startup]
    get_compartment_id_signer_field [of failing_oci startup]
  by (simp add: sim_oci_def failing_oci_def sim_signer_def)

text \<open>
  Claim C10. \<open>project_count\<close> returns \<open>len(project_catalog)\<close>, the length of the catalog object
  after the listing call, whatever list that call returned.
\<close>

theorem project_count_is_catalog_length:
  assumes "ProjectCatalog ads c = Inr cat"
    and "pc_list_projects ads cat = Inr (projects, cat')"
    and "pc_len ads cat' = Inr n"
  shows "fst (project_count ads c s) = Inr n"
  using assms
  by (simp add: project_count_def bind_logger_info try_except_apply project_count_try_eq)

theorem project_count_is_catalog_length_witness:
  "ProjectCatalog (sim_ads_project colliding_projects) ''c'' = Inr (''c'', []) \<and>
   pc_list_projects (sim_ads_project colliding_projects) (''c'', []) =
     Inr (colliding_projects ''c'', (''c'', [''...000001''])) \<and>
   pc_len (sim_ads_project colliding_projects) (''c'', [''...000001'']) = Inr 1 \<and>
   length (colliding_projects ''c'') \<noteq> 1 \<and>
   fst (project_count (sim_ads_project colliding_projects) ''c'' startup) = Inr 1"
proof -
  have a: "ProjectCatalog (sim_ads_project colliding_projects) ''c'' = Inr (''c'', [])"
    by (simp add: sim_ads_project_def)
  have b: "pc_list_projects (sim_ads_project colliding_projects) (''c'', []) =
             Inr (colliding_projects ''c'', (''c'', [''...000001'']))"
    by (simp add: sim_ads_project_def colliding_projects_def short_id_def)
  have c: "pc_len (sim_ads_project colliding_projects) (''c'', [''...000001'']) = Inr 1"
    by (simp add: sim_ads_project_def)
  have d: "length (colliding_projects ''c'') \<noteq> 1"
    by (simp add: colliding_projects_def)
  from a b c d project_count_is_catalog_length [OF a b c, of startup] show ?thesis
    by simp
qed

text \<open>
  Claim C4. For a compartment that holds N projects according to the backend, that is, the
  listing returns N projects and the catalog object then has length N, \<open>project_count\<close>
  returns N.
\<close>

theorem project_count_counts_the_compartment:
  assumes "ProjectCatalog ads c = Inr cat"
    and "pc_list_projects ads cat = Inr (projects, cat')"
    and "pc_len ads cat' = Inr (length projects)"
  shows "fst (project_count ads c s) = Inr (length projects)"
  using assms
  by (simp add: project_count_def bind_logger_info try_except_apply project_count_try_eq)

theorem project_count_counts_the_compartment_witness:
  "ProjectCatalog (sim_ads_project two_projects) ''c'' = Inr (''c'', []) \<and>
   pc_list_projects (sim_ads_project two_projects) (''c'', []) =
     Inr (two_projects ''c'', (''c'', [''...aaa111'', ''...bbb222''])) \<and>
   pc_len (sim_ads_project two_projects) (''c'', [''...aaa111'', ''...bbb222'']) =
     Inr (length (two_projects ''c'')) \<and>
   fst (project_count (sim_ads_project two_projects) ''c'' startup) = Inr 2"
proof -
  have a: "ProjectCatalog (sim_ads_project two_projects) ''c'' = Inr (''c'', [])"
    by (simp add: sim_ads_project_def)
  have b: "pc_list_projects (sim_ads_project two_projects) (''c'', []) =
             Inr (two_projects ''c'', (''c'', [''...aaa111'', ''...bbb222'']))"
    by (simp add: sim_ads_project_def two_projects_def short_id_def)
  have c: "pc_len (sim_ads_project two_projects) (''c'', [''...aaa111'', ''...bbb222'']) =
             Inr (length (two_projects ''c''))"
    by (simp add: sim_ads_project_def two_projects_def)
  have l: "length (two_projects ''c'') = 2"
    by (simp add: two_projects_def)
  from a b c l project_count_counts_the_compartment [OF a b c, of startup] show ?thesis
    by simp
qed

text \<open>
  Claim C7. When the model catalog lists N models for the compartment, \<open>model_count\<close> returns N.
\<close>

theorem model_count_is_listing_length:
  assumes "ModelCatalog ads c = Inr cat"
    and "mc_list_models ads cat = Inr models"
  shows "fst (model_count ads c s) = Inr (length models)"
  using assms by (simp add: model_count_def try_except_apply model_count_try_eq)

theorem model_count_is_listing_length_witness:
  "ModelCatalog (sim_ads_model (\<lambda>_. [''m1'', ''m2'', ''m3''])) ''c'' = Inr ''c'' \<and>
   mc_list_models (sim_ads_model (\<lambda>_. [''m1'', ''m2'', ''m3''])) ''c'' =
     Inr [''m1'', ''m2'', ''m3''] \<and>
   fst (model_count (sim_ads_model (\<lambda>_. [''m1'', ''m2'', ''m3''])) ''c'' startup) = Inr 3"
proof -
  let ?ads = "sim_ads_model (\<lambda>_. [''m1'', ''m2'', ''m3''])"
  have a: "ModelCatalog ?ads ''c'' = Inr ''c''"
    by (simp add: sim_ads_model_def)
  have b: "mc_list_models ?ads ''c'' = Inr [''m1'', ''m2'', ''m3'']"
    by (simp add: sim_ads_model_def)
  from a b model_count_is_listing_length [OF a b, of startup] show ?thesis
    by simp
qed

text \<open>
  Claim C3. When the listing for the compartment returns N projects, \<open>list_projects\<close> returns
  N mappings in the order of the listing; the mapping at each position holds exactly the
  identifier, the display name and the description of the project at that position.
\<close>

theorem list_projects_rows_follow_listing:
  assumes "ProjectCatalog ads c = Inr cat"
    and "pc_list_projects ads cat = Inr (projects, cat')"
  shows "\<exists>rows. fst (list_projects ads c s) = Inr rows \<and>
           length rows = length projects \<and>
           (\<forall>i<length projects.
              (rows ! i) ''project_id'' = Some (proj_id (projects ! i)) \<and>
              (rows ! i) ''project_name'' = Some (proj_display_name (projects ! i)) \<and>
              (rows ! i) ''project_description'' = Some (proj_description (projects ! i)) \<and>
              dom (rows ! i) = {''project_id'', ''project_name'', ''project_description''})"
proof -
  let ?row = "\<lambda>p. [''project_id'' \<mapsto> proj_id p,
                    ''project_name'' \<mapsto> proj_display_name p,
                    ''project_description'' \<mapsto> proj_description p]"
  have "fst (list_projects ads c s) = Inr (map ?row projects)"
    using assms by (simp add: list_projects_def try_except_apply list_projects_try_eq)
  moreover have "length (map ?row projects) = length projects"
    by simp
  moreover have "\<forall>i<length projects.
      (map ?row projects ! i) ''project_id'' = Some (proj_id (projects ! i)) \<and>
      (map ?row projects ! i) ''project_name'' = Some (proj_display_name (projects ! i)) \<and>
      (map ?row projects ! i) ''project_description'' = Some (proj_description (projects ! i)) \<and>
      dom (map ?row projects ! i) = {''project_id'', ''project_name'', ''project_description''}"
    by auto
  ultimately show ?thesis
    by blast
qed

theorem list_projects_rows_follow_listing_witness:
  "ProjectCatalog (sim_ads_project two_projects) ''c'' = Inr (''c'', []) \<and>
   pc_list_projects (sim_ads_project two_projects) (''c'', []) =
     Inr (two_projects ''c'', (''c'', [''...aaa111'', ''...bbb222''])) \<and>
   (\<exists>rows. fst (list_projects (sim_ads_project two_projects) ''c'' startup) = Inr rows \<and>
      length rows = 2 \<and>
      (rows ! 0) ''project_id'' = Some ''ocid1.project.aaa111'' \<and>
      (rows ! 0) ''project_name'' = Some ''Churn'' \<and>
      (rows ! 1) ''project_id'' = Some ''ocid1.project.bbb222'' \<and>
      (rows ! 1) ''project_description'' = Some ''Card fraud'')"
proof -
  have a: "ProjectCatalog (sim_ads_project two_projects) ''c'' = Inr (''c'', [])"
    by (simp add: sim_ads_project_def)
  have b: "pc_list_projects (sim_ads_project two_projects) (''c'', []) =
             Inr (two_projects ''c'', (''c'', [''...aaa111'', ''...bbb222'']))"
    by (simp add: sim_ads_project_def two_projects_def short_id_def)
  from list_projects_rows_follow_listing [OF a b, of startup]
  obtain rows where r: "fst (list_projects (sim_ads_project two_projects) ''c'' startup) = Inr rows"
    "length rows = length (two_projects ''c'')"
    "\<forall>i<length (two_projects ''c'').
       (rows ! i) ''project_id'' = Some (proj_id (two_projects ''c'' ! i)) \<and>
       (rows ! i) ''project_name'' = Some (proj_display_name (two_projects ''c'' ! i)) \<and>
       (rows ! i) ''project_description'' = Some (proj_description (two_projects ''c'' ! i)) \<and>
       dom (rows ! i) = {''project_id'', ''project_name'', ''project_description''}"
    by blast
  have l: "length (two_projects ''c'') = 2"
    by (simp add: two_projects_def)
  from r(3) l have "(rows ! 0) ''project_id'' = Some (proj_id (two_projects ''c'' ! 0))"
    and "(rows ! 0) ''project_name'' = Some (proj_display_name (two_projects ''c'' ! 0))"
    and "(rows ! 1) ''project_id'' = Some (proj_id (two_projects ''c'' ! 1))"
    and "(rows ! 1) ''project_description'' = Some (proj_description (two_projects ''c'' ! 1))"
    by simp_all
  then have "(rows ! 0) ''project_id'' = Some ''ocid1.project.aaa111''"
    and "(rows ! 0) ''project_name'' = Some ''Churn''"
    and "(rows ! 1) ''project_id'' = Some ''ocid1.project.bbb222''"
    and "(rows ! 1) ''project_description'' = Some ''Card fraud''"
    by (simp_all add: two_projects_def)
  with a b r(1,2) l show ?thesis
    by simp
qed

text \<open>
  Claim C5. Given a name, a description and a compartment, \<open>create_project\<close> builds the
  catalog, makes one creation call with those three values and returns the \<open>to_dict\<close> of the
  frame of the project that this call created. When that frame holds the three values in one
  of its columns, as the frame of a project created with them does, the returned mapping
  holds them under that column, each at its row label.
\<close>

theorem create_project_one_call_and_fields:
  assumes "ProjectCatalog ads c = Inr cat"
    and "pc_create_project ads cat n d c = Inr res"
    and "proj_to_dataframe ads res = Inr df"
    and "distinct (map fst (df_columns df))"
    and "distinct (df_index df)"
    and "(col, vs) \<in> set (df_columns df)"
    and "length vs = length (df_index df)"
    and "i < length vs" and "vs ! i = PyStr n"
    and "j < length vs" and "vs ! j = PyStr d"
    and "k < length vs" and "vs ! k = PyStr c"
  shows "fst (create_project ads n d c s) = Inr (to_dict df) \<and>
         calls (snd (create_project ads n d c s)) =
           calls s @ [NewProjectCatalog c, CreateProject n d c, ToDataframe] \<and>
         (\<exists>m. to_dict df col = Some m \<and>
              m (df_index df ! i) = Some (PyStr n) \<and>
              m (df_index df ! j) = Some (PyStr d) \<and>
              m (df_index df ! k) = Some (PyStr c))"
proof -
  have "create_project ads n d c s =
          (Inr (to_dict df),
           s\<lparr>calls := calls s @ [NewProjectCatalog c, CreateProject n d c, ToDataframe]\<rparr>)"
    using assms(1-3) by (simp add: create_project_def try_except_apply create_project_try_eq)
  moreover
  from to_dict_cell [OF assms(4,5,6), of i] assms(7,8,9)
  obtain m where m: "to_dict df col = Some m" "m (df_index df ! i) = Some (PyStr n)"
    by auto
  from to_dict_cell [OF assms(4,5,6), of j] assms(7,10,11) m(1)
  have "m (df_index df ! j) = Some (PyStr d)"
    by auto
  moreover
  from to_dict_cell [OF assms(4,5,6), of k] assms(7,12,13) m(1)
  have "m (df_index df ! k) = Some (PyStr c)"
    by auto
  ultimately show ?thesis
    using m by simp
qed

theorem create_project_one_call_and_fields_witness:
  "ProjectCatalog (sim_ads_project two_projects) ''C'' = Inr (''C'', []) \<and>
   (\<exists>r m. fst (create_project (sim_ads_project two_projects) ''X'' ''Y'' ''C'' startup) = Inr r \<and>
      r [] = Some m \<and>
      m ''display_name'' = Some (PyStr ''X'') \<and>
      m ''description'' = Some (PyStr ''Y'') \<and>
      m ''compartment_id'' = Some (PyStr ''C'')) \<and>
   calls (snd (create_project (sim_ads_project two_projects) ''X'' ''Y'' ''C'' startup)) =
     [NewProjectCatalog ''C'', CreateProject ''X'' ''Y'' ''C'', ToDataframe]"
proof -
  let ?ads = "sim_ads_project two_projects"
  let ?res = "[(''compartment_id'', PyStr ''C''), (''description'', PyStr ''Y''),
               (''display_name'', PyStr ''X''), (''id'', PyStr ''ocid1.project.new001'')]"
  let ?vs = "[PyStr ''C'', PyStr ''Y'', PyStr ''X'', PyStr ''ocid1.project.new001'']"
  let ?df = "\<lparr>df_index = [''compartment_id'', ''description'', ''display_name'', ''id''],
              df_columns = [([], ?vs)]\<rparr>"
  have a: "ProjectCatalog ?ads ''C'' = Inr (''C'', [])"
    by (simp add: sim_ads_project_def)
  have b: "pc_create_project ?ads (''C'', []) ''X'' ''Y'' ''C'' = Inr ?res"
    by (simp add: sim_ads_project_def)
  have c: "proj_to_dataframe ?ads ?res = Inr ?df"
    by (simp add: sim_ads_project_def)
  have d: "distinct (map fst (df_columns ?df))" "distinct (df_index ?df)"
    "([], ?vs) \<in> set (df_columns ?df)" "length ?vs = length (df_index ?df)"
    by simp_all
  have i: "2 < length ?vs" "?vs ! 2 = PyStr ''X''"
    and j: "1 < length ?vs" "?vs ! 1 = PyStr ''Y''"
    and k: "0 < length ?vs" "?vs ! 0 = PyStr ''C''"
    by simp_all
  have "calls startup = []"
    by (simp add: startup_def set_auth_def fresh_process_def)
  with create_project_one_call_and_fields [OF a b c d i j k, of startup] a
  show ?thesis
    by auto
qed

text \<open>
  Claim C6. A successful \<open>create_notebook_session\<close> returns a mapping with four entries: the
  URL, the display name, the creation time and the configuration object of the session in the
  service's response.
\<close>

theorem create_notebook_session_four_entries:
  assumes "fst (create_notebook_session oci p c n s) = Inr m"
  shows "dom m = {''notebook_session_url'', ''display_name'', ''time_created'',
                  ''session_details''} \<and>
         (\<exists>signer ds_client details r.
            get_resource_principals_signer oci () = Inr signer \<and>
            DataScienceClient oci signer = Inr ds_client \<and>
            dsc_create_notebook_session oci ds_client details = Inr r \<and>
            m ''notebook_session_url'' = Some (VStr (notebook_session_url (data r))) \<and>
            m ''display_name'' = Some (VStr (ns_display_name (data r))) \<and>
            m ''time_created'' = Some (VTime (time_created (data r))) \<and>
            m ''session_details'' = Some (VConfig (notebook_session_config_details (data r))))"
proof -
  from assms obtain signer ds_client details r where
    calls: "get_resource_principals_signer oci () = Inr signer"
      "DataScienceClient oci signer = Inr ds_client"
      "dsc_create_notebook_session oci ds_client details = Inr r"
    and m: "m = [''notebook_session_url'' \<mapsto> VStr (notebook_session_url (data r)),
                 ''display_name'' \<mapsto> VStr (ns_display_name (data r)),
                 ''time_created'' \<mapsto> VTime (time_created (data r)),
                 ''session_details'' \<mapsto>
                   VConfig (notebook_session_config_details (data r))]"
    by (simp add: create_notebook_session_def try_except_apply
        create_notebook_session_try_eq Let_def split: sum.splits)
  have "dom m = {''notebook_session_url'', ''display_name'', ''time_created'',
                 ''session_details''}"
    unfolding m by (simp add: insert_commute)
  moreover have "m ''notebook_session_url'' = Some (VStr (notebook_session_url (data r)))"
    and "m ''display_name'' = Some (VStr (ns_display_name (data r)))"
    and "m ''time_created'' = Some (VTime (time_created (data r)))"
    and "m ''session_details'' = Some (VConfig (notebook_session_config_details (data r)))"
    unfolding m by simp_all
  ultimately show ?thesis
    using calls by blast
qed

theorem create_notebook_session_four_entries_witness:
  "\<exists>m. fst (create_notebook_session sim_oci ''P'' ''C'' ''N'' startup) = Inr m \<and>
        dom m = {''notebook_session_url'', ''display_name'', ''time_created'',
                 ''session_details''} \<and>
        m ''notebook_session_url'' = Some (VStr ''https://notebook.example/s1'') \<and>
        m ''display_name'' = Some (VStr ''N'')"
proof -
  obtain m where m: "fst (create_notebook_session sim_oci ''P'' ''C'' ''N'' startup) = Inr m"
    and u: "m ''notebook_session_url'' = Some (VStr ''https://notebook.example/s1'')"
    and d: "m ''display_name'' = Some (VStr ''N'')"
    by (simp add: create_notebook_session_def try_except_apply
        create_notebook_session_try_eq sim_oci_def)
  from create_notebook_session_four_entries [OF m] m u d show ?thesis
    by blast
qed

text \<open>
  Claim C2. Whatever the project, the compartment and the display name, once the signer and
  the client are obtained \<open>create_notebook_session\<close> hands the service one request: the three
  arguments with the shape \<open>VM.Standard.E4.Flex\<close>, 50 GB of block storage, 4 OCPUs and 16 GB
  of memory. Its outcome is the service's answer to that request and to no other, and the
  calls it makes are the signer, the client and that request. When the signer or the client
  cannot be obtained no request is made.
\<close>

theorem create_notebook_session_fixed_sizing:
  "(\<forall>signer ds_client.
      get_resource_principals_signer oci () = Inr signer \<longrightarrow>
      DataScienceClient oci signer = Inr ds_client \<longrightarrow>
      fst (create_notebook_session oci p c n s) =
        (case dsc_create_notebook_session oci ds_client
                \<lparr>csd_project_id = p, csd_compartment_id = c, csd_display_name = n,
                 csd_notebook_session_config_details =
                   \<lparr>shape = ''VM.Standard.E4.Flex'', block_storage_size_in_gbs = 50,
                    notebook_session_shape_config_details =
                      \<lparr>ocpus = 4, memory_in_gbs = 16\<rparr>\<rparr>\<rparr> of
           Inl e \<Rightarrow> Inl e
         | Inr r \<Rightarrow>
             Inr [''notebook_session_url'' \<mapsto> VStr (notebook_session_url (data r)),
                  ''display_name'' \<mapsto> VStr (ns_display_name (data r)),
                  ''time_created'' \<mapsto> VTime (time_created (data r)),
                  ''session_details'' \<mapsto>
                    VConfig (notebook_session_config_details (data r))]) \<and>
      calls (snd (create_notebook_session oci p c n s)) =
        calls s @
        [GetResourcePrincipalsSigner, NewDataScienceClient,
         CreateNotebookSession
           \<lparr>csd_project_id = p, csd_compartment_id = c, csd_display_name = n,
            csd_notebook_session_config_details =
              \<lparr>shape = ''VM.Standard.E4.Flex'', block_storage_size_in_gbs = 50,
               notebook_session_shape_config_details =
                 \<lparr>ocpus = 4, memory_in_gbs = 16\<rparr>\<rparr>\<rparr>]) \<and>
   (\<forall>e. get_resource_principals_signer oci () = Inl e \<longrightarrow>
      fst (create_notebook_session oci p c n s) = Inl e \<and>
      calls (snd (create_notebook_session oci p c n s)) =
        calls s @ [GetResourcePrincipalsSigner]) \<and>
   (\<forall>signer e. get_resource_principals_signer oci () = Inr signer \<longrightarrow>
      DataScienceClient oci signer = Inl e \<longrightarrow>
      fst (create_notebook_session oci p c n s) = Inl e \<and>
      calls (snd (create_notebook_session oci p c n s)) =
        calls s @ [GetResourcePrincipalsSigner, NewDataScienceClient])"
  by (simp add: create_notebook_session_def try_except_apply create_notebook_session_try_eq
      Let_def split: sum.splits)

text \<open>
  On the simulated service, which answers with the configuration it was sent, the caller
  reads back the fixed sizing.
\<close>

theorem create_notebook_session_fixed_sizing_witness:
  "get_resource_principals_signer sim_oci () = Inr sim_signer \<and>
   DataScienceClient sim_oci sim_signer = Inr () \<and>
   (\<exists>m. fst (create_notebook_session sim_oci ''P'' ''C'' ''N'' startup) = Inr m \<and>
        m ''session_details'' =
          Some (VConfig \<lparr>shape = ''VM.Standard.E4.Flex'', block_storage_size_in_gbs = 50,
                         notebook_session_shape_config_details =
                           \<lparr>ocpus = 4, memory_in_gbs = 16\<rparr>\<rparr>)) \<and>
   calls (snd (create_notebook_session sim_oci ''P'' ''C'' ''N'' startup)) =
     [GetResourcePrincipalsSigner, NewDataScienceClient,
      CreateNotebookSession
        \<lparr>csd_project_id = ''P'', csd_compartment_id = ''C'', csd_display_name = ''N'',
         csd_notebook_session_config_details =
           \<lparr>shape = ''VM.Standard.E4.Flex'', block_storage_size_in_gbs = 50,
            notebook_session_shape_config_details = \<lparr>ocpus = 4, memory_in_gbs = 16\<rparr>\<rparr>\<rparr>]"
proof -
  have a: "get_resource_principals_signer sim_oci () = Inr sim_signer"
    and b: "DataScienceClient sim_oci sim_signer = Inr ()"
    by (simp_all add: sim_oci_def)
  have e: "calls startup = []"
    by (simp add: startup_def set_auth_def fresh_process_def)
  have r: "dsc_create_notebook_session sim_oci () d =
             Inr \<lparr>data =
               \<lparr>notebook_session_url = ''https://notebook.example/s1'',
                ns_display_name = csd_display_name d,
                time_created = Datetime 1700000000,
                notebook_session_config_details = csd_notebook_session_config_details d\<rparr>\<rparr>"
    for d
    by (simp add: sim_oci_def)
  from create_notebook_session_fixed_sizing [of sim_oci "''P''" "''C''" "''N''" startup] a b
  show ?thesis
    by (simp add: e r)
qed

text \<open>
  Claim C9. No handler changes the authentication mode that was set at start-up, whether
  it returns or raises.
\<close>

theorem handlers_keep_auth_mode:
  "auth_mode (snd (get_compartment_id oci s)) = auth_mode s \<and>
   auth_mode (snd (project_count adsp c s)) = auth_mode s \<and>
   auth_mode (snd (create_project adsp n d c s)) = auth_mode s \<and>
   auth_mode (snd (model_count adsm c s)) = auth_mode s \<and>
   auth_mode (snd (list_projects adsp c s)) = auth_mode s \<and>
   auth_mode (snd (create_notebook_session oci p c n s)) = auth_mode s"
proof (intro conjI)
  show "auth_mode (snd (get_compartment_id oci s)) = auth_mode s"
    by (simp add: get_compartment_id_eq split: sum.splits)
  show "auth_mode (snd (project_count adsp c s)) = auth_mode s"
    by (simp add: project_count_def bind_logger_info try_except_apply project_count_try_eq
        split: sum.splits prod.splits)
  show "auth_mode (snd (create_project adsp n d c s)) = auth_mode s"
    by (simp add: create_project_def try_except_apply create_project_try_eq split: sum.splits)
  show "auth_mode (snd (model_count adsm c s)) = auth_mode s"
    by (simp add: model_count_def try_except_apply model_count_try_eq split: sum.splits)
  show "auth_mode (snd (list_projects adsp c s)) = auth_mode s"
    by (simp add: list_projects_def try_except_apply list_projects_try_eq
        split: sum.splits prod.splits)
  show "auth_mode (snd (create_notebook_session oci p c n s)) = auth_mode s"
    by (simp add: create_notebook_session_def try_except_apply create_notebook_session_try_eq
        Let_def split: sum.splits)
qed

theorem handlers_keep_auth_mode_witness:
  "auth_mode (snd (project_count failing_ads_project ''C'' startup)) =
     Some ''resource_principal'' \<and>
   auth_mode (snd (create_notebook_session sim_oci ''P'' ''C'' ''N'' startup)) =
     Some ''resource_principal''"
proof -
  have "auth_mode startup = Some ''resource_principal''"
    by (simp add: startup_def set_auth_def fresh_process_def)
  with handlers_keep_auth_mode
      [of sim_oci startup failing_ads_project "''C''" "''N''" "''D''" failing_ads_model "''P''"]
  show ?thesis
    by simp
qed

text \<open>
  Claim C1, as stated, at a failing backend: \<open>model_count\<close> re-raises the service error and
  its one line goes to standard output, none to standard error; \<open>get_compartment_id\<close>, which
  has no try block, re-raises and writes nothing at all.
\<close>

theorem failure_line_not_on_stderr_counterexample:
  "fst (model_count failing_ads_model ''c'' startup) = Inl service_error \<and>
   stdout (snd (model_count failing_ads_model ''c'' startup)) =
     [''Error getting model count: boom''] \<and>
   stderr (snd (model_count failing_ads_model ''c'' startup)) = [] \<and>
   fst (get_compartment_id failing_oci startup) = Inl service_error \<and>
   stdout (snd (get_compartment_id failing_oci startup)) = [] \<and>
   stderr (snd (get_compartment_id failing_oci startup)) = []"
  by (simp add: model_count_def try_except_apply model_count_try_eq get_compartment_id_eq
      failing_ads_model_def failing_oci_def service_error_def startup_def set_auth_def
      fresh_process_def)

text \<open>
  Claim C1, amended. In each of the five handlers with a try block, when a library call in
  the block raises an instance of \<open>Exception\<close>, the handler raises that same exception and
  appends one line to standard output: a prefix fixed for the handler, followed by the text
  of the exception. Nothing goes to standard error, except the record that \<open>project_count\<close>
  logs on entry. \<open>get_compartment_id\<close> has no try block: an exception of one of its library
  calls reaches the caller unchanged and neither stream is written.
\<close>

theorem guarded_handlers_print_once_and_reraise:
  "(exc_catchable e \<and>
    (ProjectCatalog adsp c = Inl e \<or>
     (\<exists>cat. ProjectCatalog adsp c = Inr cat \<and>
        (pc_list_projects adsp cat = Inl e \<or>
         (\<exists>projects cat'. pc_list_projects adsp cat = Inr (projects, cat') \<and>
            pc_len adsp cat' = Inl e)))) \<longrightarrow>
      fst (project_count adsp c s) = Inl e \<and>
      stdout (snd (project_count adsp c s)) =
        stdout s @ [''Error getting project count: '' @ exc_str e] \<and>
      stderr (snd (project_count adsp c s)) =
        stderr s @ [LogRecord ''INFO'' ''calling project_count tool successfully'']) \<and>
   (exc_catchable e \<and>
    (ProjectCatalog adsp c = Inl e \<or>
     (\<exists>cat. ProjectCatalog adsp c = Inr cat \<and>
        (pc_create_project adsp cat name desc c = Inl e \<or>
         (\<exists>res. pc_create_project adsp cat name desc c = Inr res \<and>
            proj_to_dataframe adsp res = Inl e)))) \<longrightarrow>
      fst (create_project adsp name desc c s) = Inl e \<and>
      stdout (snd (create_project adsp name desc c s)) =
        stdout s @ [''Error getting project count: '' @ exc_str e] \<and>
      stderr (snd (create_project adsp name desc c s)) = stderr s) \<and>
   (exc_catchable e \<and>
    (ModelCatalog adsm c = Inl e \<or>
     (\<exists>cat. ModelCatalog adsm c = Inr cat \<and> mc_list_models adsm cat = Inl e)) \<longrightarrow>
      fst (model_count adsm c s) = Inl e \<and>
      stdout (snd (model_count adsm c s)) =
        stdout s @ [''Error getting model count: '' @ exc_str e] \<and>
      stderr (snd (model_count adsm c s)) = stderr s) \<and>
   (exc_catchable e \<and>
    (ProjectCatalog adsp c = Inl e \<or>
     (\<exists>cat. ProjectCatalog adsp c = Inr cat \<and> pc_list_projects adsp cat = Inl e)) \<longrightarrow>
      fst (list_projects adsp c s) = Inl e \<and>
      stdout (snd (list_projects adsp c s)) =
        stdout s @ [''Error getting project list: '' @ exc_str e] \<and>
      stderr (snd (list_projects adsp c s)) = stderr s) \<and>
   (exc_catchable e \<and>
    (get_resource_principals_signer oci () = Inl e \<or>
     (\<exists>signer. get_resource_principals_signer oci () = Inr signer \<and>
        (DataScienceClient oci signer = Inl e \<or>
         (\<exists>ds_client. DataScienceClient oci signer = Inr ds_client \<and>
            dsc_create_notebook_session oci ds_client
              \<lparr>csd_project_id = p, csd_compartment_id = c, csd_display_name = n,
               csd_notebook_session_config_details =
                 \<lparr>shape = ''VM.Standard.E4.Flex'', block_storage_size_in_gbs = 50,
                  notebook_session_shape_config_details =
                    \<lparr>ocpus = 4, memory_in_gbs = 16\<rparr>\<rparr>\<rparr> = Inl e)))) \<longrightarrow>
      fst (create_notebook_session oci p c n s) = Inl e \<and>
      stdout (snd (create_notebook_session oci p c n s)) =
        stdout s @ [''Error creating notebook session: '' @ exc_str e] \<and>
      stderr (snd (create_notebook_session oci p c n s)) = stderr s) \<and>
   (get_resource_principals_signer oci () = Inl e \<or>
    (\<exists>signer. get_resource_principals_signer oci () = Inr signer \<and>
       IdentityClient oci signer = Inl e) \<longrightarrow>
      fst (get_compartment_id oci s) = Inl e \<and>
      stdout (snd (get_compartment_id oci s)) = stdout s \<and>
      stderr (snd (get_compartment_id oci s)) = stderr s)"
proof (intro conjI)
  show "exc_catchable e \<and>
    (ProjectCatalog adsp c = Inl e \<or>
     (\<exists>cat. ProjectCatalog adsp c = Inr cat \<and>
        (pc_list_projects adsp cat = Inl e \<or>
         (\<exists>projects cat'. pc_list_projects adsp cat = Inr (projects, cat') \<and>
            pc_len adsp cat' = Inl e)))) \<longrightarrow>
      fst (project_count adsp c s) = Inl e \<and>
      stdout (snd (project_count adsp c s)) =
        stdout s @ [''Error getting project count: '' @ exc_str e] \<and>
      stderr (snd (project_count adsp c s)) =
        stderr s @ [LogRecord ''INFO'' ''calling project_count tool successfully'']"
    by (auto simp add: project_count_def bind_logger_info try_except_apply
        project_count_try_eq)
  show "exc_catchable e \<and>
    (ProjectCatalog adsp c = Inl e \<or>
     (\<exists>cat. ProjectCatalog adsp c = Inr cat \<and>
        (pc_create_project adsp cat name desc c = Inl e \<or>
         (\<exists>res. pc_create_project adsp cat name desc c = Inr res \<and>
            proj_to_dataframe adsp res = Inl e)))) \<longrightarrow>
      fst (create_project adsp name desc c s) = Inl e \<and>
      stdout (snd (create_project adsp name desc c s)) =
        stdout s @ [''Error getting project count: '' @ exc_str e] \<and>
      stderr (snd (create_project adsp name desc c s)) = stderr s"
    by (auto simp add: create_project_def try_except_apply create_project_try_eq)
  show "exc_catchable e \<and>
    (ModelCatalog adsm c = Inl e \<or>
     (\<exists>cat. ModelCatalog adsm c = Inr cat \<and> mc_list_models adsm cat = Inl e)) \<longrightarrow>
      fst (model_count adsm c s) = Inl e \<and>
      stdout (snd (model_count adsm c s)) =
        stdout s @ [''Error getting model count: '' @ exc_str e] \<and>
      stderr (snd (model_count adsm c s)) = stderr s"
    by (auto simp add: model_count_def try_except_apply model_count_try_eq)
  show "exc_catchable e \<and>
    (ProjectCatalog adsp c = Inl e \<or>
     (\<exists>cat. ProjectCatalog adsp c = Inr cat \<and> pc_list_projects adsp cat = Inl e)) \<longrightarrow>
      fst (list_projects adsp c s) = Inl e \<and>
      stdout (snd (list_projects adsp c s)) =
        stdout s @ [''Error getting project list: '' @ exc_str e] \<and>
      stderr (snd (list_projects adsp c s)) = stderr s"
    by (auto simp add: list_projects_def try_except_apply list_projects_try_eq)
  show "exc_catchable e \<and>
    (get_resource_principals_signer oci () = Inl e \<or>
     (\<exists>signer. get_resource_principals_signer oci () = Inr signer \<and>
        (DataScienceClient oci signer = Inl e \<or>
         (\<exists>ds_client. DataScienceClient oci signer = Inr ds_client \<and>
            dsc_create_notebook_session oci ds_client
              \<lparr>csd_project_id = p, csd_compartment_id = c, csd_display_name = n,
               csd_notebook_session_config_details =
                 \<lparr>shape = ''VM.Standard.E4.Flex'', block_storage_size_in_gbs = 50,
                  notebook_session_shape_config_details =
                    \<lparr>ocpus = 4, memory_in_gbs = 16\<rparr>\<rparr>\<rparr> = Inl e)))) \<longrightarrow>
      fst (create_notebook_session oci p c n s) = Inl e \<and>
      stdout (snd (create_notebook_session oci p c n s)) =
        stdout s @ [''Error creating notebook session: '' @ exc_str e] \<and>
      stderr (snd (create_notebook_session oci p c n s)) = stderr s"
    by (auto simp add: create_notebook_session_def try_except_apply
        create_notebook_session_try_eq Let_def)
  show "get_resource_principals_signer oci () = Inl e \<or>
    (\<exists>signer. get_resource_principals_signer oci () = Inr signer \<and>
       IdentityClient oci signer = Inl e) \<longrightarrow>
      fst (get_compartment_id oci s) = Inl e \<and>
      stdout (snd (get_compartment_id oci s)) = stdout s \<and>
      stderr (snd (get_compartment_id oci s)) = stderr s"
    by (auto simp add: get_compartment_id_eq)
qed

theorem guarded_handlers_print_once_and_reraise_witness:
  "exc_catchable service_error \<and>
   ProjectCatalog failing_ads_project ''c'' = Inl service_error \<and>
   ModelCatalog failing_ads_model ''c'' = Inl service_error \<and>
   get_resource_principals_signer failing_oci () = Inl service_error \<and>
   fst (project_count failing_ads_project ''c'' startup) = Inl service_error \<and>
   stdout (snd (project_count failing_ads_project ''c'' startup)) =
     [''Error getting project count: boom''] \<and>
   stderr (snd (project_count failing_ads_project ''c'' startup)) =
     [LogRecord ''INFO'' ''calling project_count tool successfully''] \<and>
   fst (model_count failing_ads_model ''c'' startup) = Inl service_error \<and>
   stdout (snd (model_count failing_ads_model ''c'' startup)) =
     [''Error getting model count: boom''] \<and>
   fst (create_notebook_session failing_oci ''P'' ''c'' ''N'' startup) = Inl service_error \<and>
   stdout (snd (create_notebook_session failing_oci ''P'' ''c'' ''N'' startup)) =
     [''Error creating notebook session: boom''] \<and>
   stderr (snd (create_notebook_session failing_oci ''P'' ''c'' ''N'' startup)) = [] \<and>
   fst (get_compartment_id failing_oci startup) = Inl service_error \<and>
   stdout (snd (get_compartment_id failing_oci startup)) = []"
proof -
  have e: "exc_catchable service_error" and str: "exc_str service_error = ''boom''"
    by (simp_all add: service_error_def)
  have a: "ProjectCatalog failing_ads_project ''c'' = Inl service_error"
    by (simp add: failing_ads_project_def)
  have b: "ModelCatalog failing_ads_model ''c'' = Inl service_error"
    by (simp add: failing_ads_model_def)
  have c: "get_resource_principals_signer failing_oci () = Inl service_error"
    by (simp add: failing_oci_def)
  have s: "stdout startup = []" "stderr startup = []"
    by (simp_all add: startup_def set_auth_def fresh_process_def)
  from guarded_handlers_print_once_and_reraise
         [where e = service_error and adsp = failing_ads_project and c = "''c''"
            and s = startup and name = "''X''" and desc = "''Y''"
            and adsm = failing_ads_model and oci = failing_oci and p = "''P''"
            and n = "''N''"]
    e a b c
  show ?thesis
    by (simp add: s str)
qed

end
